theory Spec2Isabelle
  imports Complex_Main "HOL-Library.Sublist"
begin

section \<open>Onset detection, segment validation and clip extraction\<close>

text \<open>
  A shallow embedding of \<^verbatim>\<open>minst/signal.py\<close> (and of the segment loop of
  \<^verbatim>\<open>minst/segment.py\<close>).

  Conventions.
  \<^item> Python floats are idealised as \<open>real\<close>; a waveform, an envelope and a kernel are
    \<open>real list\<close> (one channel, flattened).
  \<^item> A raise is a value \<open>Inl e\<close> of \<open>error + 'a\<close>.
  \<^item> The third-party routines (claudio, sox, librosa, scipy) and the modules
    \<^verbatim>\<open>minst.hll\<close> and \<^verbatim>\<open>minst.utils\<close> are parameters, collected in the records
    \<open>collaborators\<close> and \<open>file_collaborators\<close>. Small numpy and librosa helpers with a
    closed form (slicing, \<open>max\<close>, \<open>mean\<close>, FIR \<open>lfilter\<close>, \<open>frames_to_time\<close>) are
    written out.
  \<^item> The global numpy random generator is the explicit argument \<open>g\<close>: \<open>g i\<close> is the
    \<open>i\<close>-th standard normal sample the call will draw.
  \<^item> The file system is the set of paths that exist.
\<close>

subsection \<open>Errors and Python numerics\<close>

datatype error =
  TypeError | ValueError | IndexError | FileNotFoundError | IOError | NotModelled

text \<open>\<^verbatim>\<open>int(x)\<close> and \<^verbatim>\<open>astype(int)\<close>: truncation toward zero.\<close>

definition py_int :: "real \<Rightarrow> int" where
  "py_int x = (if 0 \<le> x then \<lfloor>x\<rfloor> else \<lceil>x\<rceil>)"

text \<open>
  \<^verbatim>\<open>a[i:j]\<close> on a one-dimensional array: a negative bound counts from the end, every
  bound is clipped to the array, and an empty range gives an empty array. It never raises.
\<close>

definition slice_bound :: "nat \<Rightarrow> int \<Rightarrow> nat" where
  "slice_bound n i =
     (if i < 0 then (if i + int n < 0 then 0 else nat (i + int n))
      else if int n < i then n else nat i)"

definition py_slice :: "'a list \<Rightarrow> int \<Rightarrow> int \<Rightarrow> 'a list" where
  "py_slice xs i j =
     (let a = slice_bound (length xs) i; b = slice_bound (length xs) j
      in take (b - a) (drop a xs))"

text \<open>\<^verbatim>\<open>a[::n]\<close> for a step \<open>n \<ge> 1\<close>: the elements at indices \<open>0, n, 2n, ...\<close>.\<close>

fun decimate :: "nat \<Rightarrow> 'a list \<Rightarrow> 'a list" where
  "decimate n [] = []"
| "decimate n (x # xs) = x # decimate n (drop (n - 1) xs)"

text \<open>\<^verbatim>\<open>a.max()\<close> and \<^verbatim>\<open>a.min()\<close> raise ValueError on an empty array.\<close>

definition np_max :: "real list \<Rightarrow> error + real" where
  "np_max xs = (case xs of [] \<Rightarrow> Inl ValueError | x # ys \<Rightarrow> Inr (fold max ys x))"

definition np_min :: "real list \<Rightarrow> error + real" where
  "np_min xs = (case xs of [] \<Rightarrow> Inl ValueError | x # ys \<Rightarrow> Inr (fold min ys x))"

text \<open>
  \<^verbatim>\<open>a.mean()\<close> and \<^verbatim>\<open>a.std()\<close> (population standard deviation). On an empty array
  numpy warns and returns nan; the model's value there is 0 and is never used.
\<close>

definition np_mean :: "real list \<Rightarrow> real" where
  "np_mean xs = sum_list xs / real (length xs)"

definition np_std :: "real list \<Rightarrow> real" where
  "np_std xs = sqrt (np_mean (map (\<lambda>v. (v - np_mean xs)\<^sup>2) xs))"

text \<open>Elementwise product of two one-dimensional arrays, with numpy's broadcasting.\<close>

definition np_mul :: "real list \<Rightarrow> real list \<Rightarrow> error + real list" where
  "np_mul xs ys =
     (if length xs = length ys then Inr (map2 (*) xs ys)
      else if length xs = 1 then Inr (map (\<lambda>y. hd xs * y) ys)
      else if length ys = 1 then Inr (map (\<lambda>x. x * hd ys) xs)
      else Inl ValueError)"

text \<open>\<^verbatim>\<open>a[idx]\<close> with an array of non-negative indices: IndexError when one is out of range.\<close>

definition np_take :: "'a list \<Rightarrow> nat list \<Rightarrow> error + 'a list" where
  "np_take xs idx =
     (if list_all (\<lambda>i. i < length xs) idx then Inr (map (nth xs) idx) else Inl IndexError)"

text \<open>\<^verbatim>\<open>m.mean(axis=0)\<close> of a matrix given as the list of its rows: the column means.\<close>

definition mean_axis0 :: "real list list \<Rightarrow> real list" where
  "mean_axis0 m = map np_mean (transpose m)"

text \<open>\<^verbatim>\<open>np.hanning(M)\<close>.\<close>

definition np_hanning :: "nat \<Rightarrow> real list" where
  "np_hanning M =
     (if M = 0 then [] else if M = 1 then [1]
      else map (\<lambda>n. 1 / 2 - 1 / 2 * cos (2 * pi * real n / real (M - 1))) [0..<M])"

text \<open>\<^verbatim>\<open>np.random.normal(loc, scale, size=n)\<close>, drawing from the generator \<open>g\<close>.\<close>

definition random_normal :: "(nat \<Rightarrow> real) \<Rightarrow> real \<Rightarrow> real \<Rightarrow> nat \<Rightarrow> real list" where
  "random_normal g loc scale n = map (\<lambda>i. loc + scale * g i) [0..<n]"

text \<open>
  \<^verbatim>\<open>scipy.signal.lfilter(b, [1], x)\<close>: the causal FIR filter
  \<open>y[n] = b[0] x[n] + b[1] x[n-1] + ...\<close>, of the length of \<open>x\<close>.
\<close>

definition lfilter :: "real list \<Rightarrow> real list \<Rightarrow> real list" where
  "lfilter b xs =
     map (\<lambda>n. \<Sum>k\<leftarrow>[0..<min (length b) (Suc n)]. b ! k * xs ! (n - k)) [0..<length xs]"

text \<open>
  \<^verbatim>\<open>librosa.time_to_samples(times, sr)\<close> is \<^verbatim>\<open>(times * sr).astype(int)\<close>, and
  \<^verbatim>\<open>librosa.frames_to_time(frames, hop_length=h)\<close> is
  \<^verbatim>\<open>(frames * h).astype(int) / float(sr)\<close> with \<^verbatim>\<open>sr\<close> left at its default 22050:
  neither call site passes \<^verbatim>\<open>sr\<close>.
\<close>

definition time_to_samples :: "real list \<Rightarrow> real \<Rightarrow> int list" where
  "time_to_samples ts sr = map (\<lambda>t. py_int (t * sr)) ts"

definition frames_to_time :: "nat list \<Rightarrow> real \<Rightarrow> real list" where
  "frames_to_time frames hop_length =
     map (\<lambda>k. real_of_int (py_int (real k * hop_length)) / 22050) frames"

subsection \<open>Collaborators\<close>

type_synonym path = string
type_synonym files = "path set"
type_synonym rng = "nat \<Rightarrow> real"
type_synonym kwargs = "(string \<times> real) list"

text \<open>
  The routines the detectors call. \<open>claudio_read\<close> takes the path, the sample rate, the
  channel count and the byte depth; \<open>hll\<close> is \<^verbatim>\<open>minst.hll.hll\<close> (times, frequencies,
  amplitudes); \<open>canny\<close> is \<^verbatim>\<open>minst.utils.canny\<close> (length, spread, order); \<open>cqt\<close> takes
  the signal, the sample rate and the hop length (the other arguments are constants);
  \<open>onset_detect\<close> takes the novelty curve, \<^verbatim>\<open>delta\<close> when it is passed, and \<^verbatim>\<open>wait\<close>;
  \<open>peak_pick\<close> takes the curve and \<^verbatim>\<open>pre_max, post_max, pre_avg, post_avg, delta, wait\<close>.
\<close>

record collaborators =
  claudio_read :: "path \<Rightarrow> nat \<Rightarrow> nat \<Rightarrow> nat \<Rightarrow> error + (real list \<times> real)"
  hll :: "path \<Rightarrow> error + (real list \<times> real list \<times> real list)"
  canny :: "nat \<Rightarrow> real \<Rightarrow> nat \<Rightarrow> real list"
  medfilt :: "real list \<Rightarrow> real \<Rightarrow> real list"
  filtfilt :: "real list \<Rightarrow> real list \<Rightarrow> real list \<Rightarrow> error + real list"
  cqt :: "real list \<Rightarrow> real \<Rightarrow> real \<Rightarrow> complex list list"
  onset_detect :: "real list \<Rightarrow> real option \<Rightarrow> real \<Rightarrow> nat list"
  peak_pick :: "real list \<Rightarrow> real \<Rightarrow> real \<Rightarrow> real \<Rightarrow> real \<Rightarrow> real \<Rightarrow> real \<Rightarrow> nat list"

subsection \<open>The onset strategies\<close>

text \<open>
  \<^verbatim>\<open>hll_onsets(filename, mfilt_len=51, threshold=0.5, wait=100)\<close>. The kernel goes to
  \<open>lfilter\<close> as \<open>canny\<close> returned it.
\<close>

definition hll_kernel :: "collaborators \<Rightarrow> real list" where
  "hll_kernel w = canny w 25 (7 / 2) 1"

definition hll_onsets ::
  "collaborators \<Rightarrow> rng \<Rightarrow> path \<Rightarrow> real \<Rightarrow> real \<Rightarrow> real \<Rightarrow> error + real list" where
  "hll_onsets w g filename mfilt_len threshold wait =
     (case hll w filename of
        Inl e \<Rightarrow> Inl e
      | Inr (time_points, freqs0, amps0) \<Rightarrow>
          (let freqs = medfilt w freqs0 mfilt_len;
               amps = medfilt w amps0 mfilt_len
           in case np_mul freqs amps of
                Inl e \<Rightarrow> Inl e
              | Inr fa \<Rightarrow>
                  (let voicings = map (\<lambda>v. v > threshold) fa;
                       c_n = hll_kernel w;
                       novelty =
                         lfilter c_n
                           (map (\<lambda>b. if (if b then (1::real) else 0) > 1 / 2 then 1 else 0)
                              voicings);
                       onsets = map (\<lambda>v. v * (if v > 0 then 1 else 0)) novelty;
                       onset_idx = onset_detect w onsets None wait
                   in if onset_idx \<noteq> [] then np_take time_points onset_idx else Inr [])))"

text \<open>
  \<^verbatim>\<open>logcqt(x, fs, hop_length=1024)\<close>: the signal is dithered with fresh Gaussian noise
  of scale \<open>10\<^sup>-\<^sup>3\<close> before the transform.
\<close>

definition logcqt :: "collaborators \<Rightarrow> rng \<Rightarrow> real list \<Rightarrow> real \<Rightarrow> real \<Rightarrow> real list list" where
  "logcqt w g x fs hop_length =
     (let x_noise = map2 (+) x (random_normal g 0 (1 / 1000) (length x));
          cqt_mag = map (map cmod) (cqt w x_noise fs hop_length)
      in map (map (\<lambda>c. ln (1 + 5000 * c))) cqt_mag)"

definition logcqt_kernel :: "collaborators \<Rightarrow> real list" where
  "logcqt_kernel w = canny w 51 (7 / 2) 1"

text \<open>
  \<^verbatim>\<open>logcqt_onsets(x, fs, pre_max=0, post_max=1, pre_avg=0, post_avg=1, delta=0.05,
  wait=50, hop_length=1024)\<close>. The four window arguments are accepted and not used.
\<close>

definition logcqt_onsets ::
  "collaborators \<Rightarrow> rng \<Rightarrow> real list \<Rightarrow> real \<Rightarrow> real \<Rightarrow> real \<Rightarrow> real \<Rightarrow> real \<Rightarrow> real \<Rightarrow>
     real \<Rightarrow> real \<Rightarrow> real list" where
  "logcqt_onsets w g x fs pre_max post_max pre_avg post_avg delta wait hop_length =
     (let lcqt = logcqt w g x fs hop_length;
          c_n = logcqt_kernel w;
          onset_strength = mean_axis0 (map (lfilter c_n) lcqt);
          peak_idx = onset_detect w onset_strength (Some delta) wait
      in frames_to_time peak_idx hop_length)"

text \<open>
  \<^verbatim>\<open>envelope_onsets(x, fs, wait=100)\<close>. The kernel is divided by the sum of the absolute
  values of its coefficients before it goes to \<open>lfilter\<close>; \<^verbatim>\<open>fs\<close> is not used.
\<close>

definition envelope_kernel :: "collaborators \<Rightarrow> real list" where
  "envelope_kernel w =
     (let kernel = canny w 100 (7 / 2) 1
      in map (\<lambda>c. c / sum_list (map abs kernel)) kernel)"

definition envelope_onsets ::
  "collaborators \<Rightarrow> rng \<Rightarrow> real list \<Rightarrow> real \<Rightarrow> real \<Rightarrow> error + real list" where
  "envelope_onsets w g x fs wait =
     (let log_env = map (\<lambda>v. 10 * log 10 (10 powr (- 9 / 2) + v\<^sup>2)) x;
          w_n0 = np_hanning 100;
          w_n = map (\<lambda>v. v / sum_list w_n0) w_n0
      in case filtfilt w w_n [1] log_env of
           Inl e \<Rightarrow> Inl e
         | Inr log_env_lpf \<Rightarrow>
             (let n_hop = 100;
                  kernel = envelope_kernel w
              in case np_min log_env_lpf of
                   Inl e \<Rightarrow> Inl e
                 | Inr lo \<Rightarrow>
                     (let onsets_forward =
                            lfilter kernel (map (\<lambda>v. v - lo) (decimate n_hop log_env_lpf));
                          onsets_pos = map (\<lambda>v. v * (if v > 0 then 1 else 0)) onsets_forward;
                          peak_idx = peak_pick w onsets_pos 500 500 10 10 (1 / 40) wait
                      in Inr (frames_to_time peak_idx (real n_hop)))))"

text \<open>\<^verbatim>\<open>log_envelope(x, fs, filt_len=100)\<close>.\<close>

definition log_envelope :: "collaborators \<Rightarrow> real list \<Rightarrow> real \<Rightarrow> nat \<Rightarrow> error + real list" where
  "log_envelope w x fs filt_len =
     (let log_env = map (\<lambda>v. 10 * log 10 (10 powr (- 9 / 2) + v\<^sup>2)) x;
          w_n0 = np_hanning filt_len;
          w_n = map (\<lambda>v. v / sum_list w_n0) w_n0
      in filtfilt w w_n [1] log_env)"

subsection \<open>The segmenter\<close>

record segment_record =
  time :: real
  env_max :: real
  env_mean :: real
  env_std :: real
  env_delta :: real

text \<open>
  The loop of \<^verbatim>\<open>segment\<close> (signal.py, lines 138 to 146) over
  \<^verbatim>\<open>zip(onset_times, onset_idx)\<close>, with the accumulator \<^verbatim>\<open>recs\<close>.
\<close>

fun segment_loop ::
  "real list \<Rightarrow> real \<Rightarrow> real \<Rightarrow> segment_record list \<Rightarrow> (real \<times> int) list \<Rightarrow>
     error + segment_record list" where
  "segment_loop log_env_lpf fs db_delta_thresh recs [] = Inr recs"
| "segment_loop log_env_lpf fs db_delta_thresh recs ((tm, idx) # rest) =
     (let x_m = py_slice log_env_lpf idx (idx + py_int fs)
      in if length x_m > 0 then
           (case np_max x_m of
              Inl e \<Rightarrow> Inl e
            | Inr mx \<Rightarrow>
                (let r = \<lparr>time = tm, env_max = mx, env_mean = np_mean x_m,
                          env_std = np_std x_m, env_delta = mx - np_mean log_env_lpf\<rparr>
                 in if env_delta r > db_delta_thresh
                    then segment_loop log_env_lpf fs db_delta_thresh (recs @ [r]) rest
                    else segment_loop log_env_lpf fs db_delta_thresh recs rest))
         else segment_loop log_env_lpf fs db_delta_thresh recs rest)"

text \<open>
  The table \<^verbatim>\<open>ONSETS\<close> and the call \<^verbatim>\<open>ONSETS.get(mode)(x, fs, **kwargs)\<close>. Binding the
  keyword arguments raises TypeError on a name that is not a keyword parameter of the
  callee; a missing entry is \<^verbatim>\<open>None\<close>, and calling it raises TypeError. The entry for
  \<^verbatim>\<open>'hll'\<close> is never reached from \<^verbatim>\<open>segment\<close>, and what it does on a waveform is not
  modelled.
\<close>

datatype strategy = Hll_onsets | Logcqt_onsets | Envelope_onsets

definition ONSETS :: "(string \<times> strategy) list" where
  "ONSETS = [(''hll'', Hll_onsets), (''logcqt'', Logcqt_onsets), (''envelope'', Envelope_onsets)]"

definition bind_kwargs :: "string list \<Rightarrow> kwargs \<Rightarrow> error + (string \<Rightarrow> real \<Rightarrow> real)" where
  "bind_kwargs names kw =
     (if list_all (\<lambda>kv. List.member names (fst kv)) kw
      then Inr (\<lambda>name dflt. case map_of kw name of None \<Rightarrow> dflt | Some v \<Rightarrow> v)
      else Inl TypeError)"

definition call_onsets ::
  "collaborators \<Rightarrow> rng \<Rightarrow> strategy option \<Rightarrow> real list \<Rightarrow> real \<Rightarrow> kwargs \<Rightarrow>
     error + real list" where
  "call_onsets w g f x fs kw =
     (case f of
        None \<Rightarrow> Inl TypeError
      | Some Hll_onsets \<Rightarrow> Inl NotModelled
      | Some Logcqt_onsets \<Rightarrow>
          (case bind_kwargs [''pre_max'', ''post_max'', ''pre_avg'', ''post_avg'', ''delta'',
                             ''wait'', ''hop_length''] kw of
             Inl e \<Rightarrow> Inl e
           | Inr arg \<Rightarrow>
               Inr (logcqt_onsets w g x fs (arg ''pre_max'' 0) (arg ''post_max'' 1)
                      (arg ''pre_avg'' 0) (arg ''post_avg'' 1) (arg ''delta'' (1 / 20))
                      (arg ''wait'' 50) (arg ''hop_length'' 1024)))
      | Some Envelope_onsets \<Rightarrow>
          (case bind_kwargs [''wait''] kw of
             Inl e \<Rightarrow> Inl e
           | Inr arg \<Rightarrow> envelope_onsets w g x fs (arg ''wait'' 100)))"

text \<open>\<^verbatim>\<open>segment(audio_file, mode, db_delta_thresh=2.5, **kwargs)\<close> of signal.py.\<close>

definition segment ::
  "collaborators \<Rightarrow> rng \<Rightarrow> path \<Rightarrow> string \<Rightarrow> real \<Rightarrow> kwargs \<Rightarrow> error + segment_record list" where
  "segment w g audio_file mode db_delta_thresh kw =
     (case claudio_read w audio_file 22050 1 2 of
        Inl e \<Rightarrow> Inl e
      | Inr (x, fs) \<Rightarrow>
          (case (if mode = ''hll'' then hll_onsets w g audio_file 51 (1 / 2) 100
                 else call_onsets w g (map_of ONSETS mode) x fs kw) of
             Inl e \<Rightarrow> Inl e
           | Inr onset_times \<Rightarrow>
               (let onset_idx = time_to_samples onset_times fs
                in case log_envelope w x fs 100 of
                     Inl e \<Rightarrow> Inl e
                   | Inr log_env_lpf \<Rightarrow>
                       segment_loop log_env_lpf fs db_delta_thresh []
                         (zip onset_times onset_idx))))"

text \<open>
  The loop of the plotting variant \<^verbatim>\<open>segment(filename, mode, **kwargs)\<close> of segment.py
  (lines 127 to 132): no length check, no threshold, and the reference level is the
  minimum of the envelope.
\<close>

fun segment_py_loop ::
  "real list \<Rightarrow> real \<Rightarrow> segment_record list \<Rightarrow> (real \<times> int) list \<Rightarrow>
     error + segment_record list" where
  "segment_py_loop log_env_lpf fs recs [] = Inr recs"
| "segment_py_loop log_env_lpf fs recs ((tm, idx) # rest) =
     (let x_m = py_slice log_env_lpf idx (idx + py_int fs)
      in case np_max x_m of
           Inl e \<Rightarrow> Inl e
         | Inr mx \<Rightarrow>
             (case np_min log_env_lpf of
                Inl e \<Rightarrow> Inl e
              | Inr lo \<Rightarrow>
                  segment_py_loop log_env_lpf fs
                    (recs @ [\<lparr>time = tm, env_max = mx, env_mean = np_mean x_m,
                              env_std = np_std x_m, env_delta = mx - lo\<rparr>]) rest))"

subsection \<open>The clip extractor\<close>

text \<open>
  The routines \<^verbatim>\<open>extract_clip\<close> calls. \<open>sox_soxi\<close> is
  \<^verbatim>\<open>float(claudio.sox.soxi(input_file, 'r'))\<close>; \<open>temp_file k ext\<close> is the name the
  \<open>k\<close>-th call of \<^verbatim>\<open>claudio.util.temp_file\<close> returns. \<open>sox_trim\<close> and
  \<open>sox_concatenate\<close> report failure by their flag; the others may raise, and leave the
  files as they were when they do.
\<close>

record file_collaborators =
  sox_trim :: "path \<Rightarrow> path \<Rightarrow> real \<Rightarrow> real \<Rightarrow> files \<Rightarrow> bool \<times> files"
  sox_soxi :: "path \<Rightarrow> string \<Rightarrow> files \<Rightarrow> error + real"
  temp_file :: "nat \<Rightarrow> string \<Rightarrow> path"
  claudio_write :: "path \<Rightarrow> real list \<Rightarrow> real \<Rightarrow> files \<Rightarrow> error + files"
  sox_concatenate :: "path list \<Rightarrow> path \<Rightarrow> files \<Rightarrow> bool \<times> files"

text \<open>
  \<^verbatim>\<open>os.path.exists\<close>, \<^verbatim>\<open>os.remove\<close> and \<^verbatim>\<open>os.rename\<close>. The empty path never
  exists; removing or renaming a path that does not exist raises.
\<close>

definition path_exists :: "files \<Rightarrow> path \<Rightarrow> bool" where
  "path_exists fs p = (p \<noteq> [] \<and> p \<in> fs)"

definition os_remove :: "path \<Rightarrow> files \<Rightarrow> error + files" where
  "os_remove p fs = (if path_exists fs p then Inr (fs - {p}) else Inl FileNotFoundError)"

definition os_rename :: "path \<Rightarrow> path \<Rightarrow> files \<Rightarrow> error + files" where
  "os_rename src dst fs =
     (if path_exists fs src then Inr (insert dst (fs - {src})) else Inl FileNotFoundError)"

text \<open>\<^verbatim>\<open>os.path.splitext(p)[-1].strip('.')\<close>.\<close>

definition output_extension :: "path \<Rightarrow> string" where
  "output_extension p =
     (let b = takeWhile (\<lambda>c. c \<noteq> CHR ''/'') (rev p);
          e = takeWhile (\<lambda>c. c \<noteq> CHR ''.'') b;
          r = dropWhile (\<lambda>c. c \<noteq> CHR ''.'') b
      in if r \<noteq> [] \<and> list_ex (\<lambda>c. c \<noteq> CHR ''.'') (tl r) then rev e else [])"

text \<open>The end of \<^verbatim>\<open>extract_clip\<close> (lines 188 to 196): the two removals and the result.\<close>

definition clip_cleanup :: "files \<Rightarrow> path \<Rightarrow> path \<Rightarrow> path \<Rightarrow> (error + bool) \<times> files" where
  "clip_cleanup fs output_file noise_file tmp_output_file =
     (case (if path_exists fs noise_file then os_remove noise_file fs else Inr fs) of
        Inl e \<Rightarrow> (Inl e, fs)
      | Inr fs1 \<Rightarrow>
          (case (if path_exists fs1 tmp_output_file then os_remove noise_file fs1
                 else Inr fs1) of
             Inl e \<Rightarrow> (Inl e, fs1)
           | Inr fs2 \<Rightarrow>
               (Inr (path_exists fs2 output_file \<and> \<not> path_exists fs2 noise_file \<and>
                     \<not> path_exists fs2 tmp_output_file), fs2)))"

text \<open>
  \<^verbatim>\<open>extract_clip(input_file, output_file, start_time, end_time, duration=None,
  noise_floor=-65.0)\<close>, from the files \<open>fs\<close>: the result (or the exception) and the files
  left behind. The debug log line is left out; it is the only use of the flag of
  \<open>sox_trim\<close>.
\<close>

definition extract_clip ::
  "file_collaborators \<Rightarrow> rng \<Rightarrow> files \<Rightarrow> path \<Rightarrow> path \<Rightarrow> real \<Rightarrow> real \<Rightarrow> real option \<Rightarrow>
     real \<Rightarrow> (error + bool) \<times> files" where
  "extract_clip w g fs input_file output_file start_time end_time0 duration noise_floor =
     (let real_duration = end_time0 - start_time;
          end_time =
            (case duration of
               None \<Rightarrow> end_time0
             | Some d \<Rightarrow> if real_duration \<ge> d then start_time + d else end_time0);
          (success, fs1) = sox_trim w input_file output_file start_time end_time fs
      in case duration of
           None \<Rightarrow> clip_cleanup fs1 output_file [] []
         | Some d \<Rightarrow>
             if real_duration < d then
               (case sox_soxi w input_file ''r'' fs1 of
                  Inl e \<Rightarrow> (Inl e, fs1)
                | Inr sr \<Rightarrow>
                    (let scale = 10 powr (noise_floor / 20) / 2;
                         num_samples = py_int (sr * (d - real_duration) + 1 / 2)
                     in if num_samples < 0 then (Inl ValueError, fs1)
                        else
                          (let noise_pad = random_normal g 0 scale (nat num_samples);
                               noise_file = [] @ temp_file w 0 ''wav'';
                               tmp_output_file =
                                 [] @ temp_file w 1 (output_extension output_file)
                           in case claudio_write w noise_file noise_pad sr fs1 of
                                Inl e \<Rightarrow> (Inl e, fs1)
                              | Inr fs2 \<Rightarrow>
                                  (let (ok, fs3) =
                                         sox_concatenate w [output_file, noise_file]
                                           tmp_output_file fs2
                                   in case os_rename tmp_output_file output_file fs3 of
                                        Inl e \<Rightarrow> (Inl e, fs3)
                                      | Inr fs4 \<Rightarrow>
                                          clip_cleanup fs4 output_file noise_file
                                            tmp_output_file))))
             else clip_cleanup fs1 output_file [] [])"

subsection \<open>Views of the source used in the statements\<close>

text \<open>
  The strategy call of \<^verbatim>\<open>segment\<close> (lines 130 to 133) and the rest of its body (lines 135
  to 148), named so that statements can refer to them; \<open>segment_unfold\<close> and
  \<open>segment_via_onsets\<close> below show that \<open>segment\<close> is their composition.
\<close>

definition strategy_onsets ::
  "collaborators \<Rightarrow> rng \<Rightarrow> path \<Rightarrow> string \<Rightarrow> real list \<Rightarrow> real \<Rightarrow> kwargs \<Rightarrow>
     error + real list" where
  "strategy_onsets w g audio_file mode x fs kw =
     (if mode = ''hll'' then hll_onsets w g audio_file 51 (1 / 2) 100
      else call_onsets w g (map_of ONSETS mode) x fs kw)"

definition segment_from_onsets ::
  "collaborators \<Rightarrow> real list \<Rightarrow> real \<Rightarrow> real \<Rightarrow> error + real list \<Rightarrow> error + segment_record list" where
  "segment_from_onsets w x fs th r =
     (case r of
        Inl e \<Rightarrow> Inl e
      | Inr ts \<Rightarrow>
          (case log_envelope w x fs 100 of
             Inl e \<Rightarrow> Inl e
           | Inr env \<Rightarrow> segment_loop env fs th [] (zip ts (time_to_samples ts fs))))"

text \<open>
  The values of \<^verbatim>\<open>noise_file\<close> and \<^verbatim>\<open>tmp_output_file\<close> at the end of
  \<^verbatim>\<open>extract_clip\<close>: the empty string unless the padding branch ran.
\<close>

definition clip_noise_file :: "file_collaborators \<Rightarrow> real \<Rightarrow> real \<Rightarrow> real option \<Rightarrow> path" where
  "clip_noise_file w start_time end_time duration =
     (case duration of
        None \<Rightarrow> []
      | Some d \<Rightarrow> if end_time - start_time < d then temp_file w 0 ''wav'' else [])"

definition clip_tmp_output_file ::
  "file_collaborators \<Rightarrow> path \<Rightarrow> real \<Rightarrow> real \<Rightarrow> real option \<Rightarrow> path" where
  "clip_tmp_output_file w output_file start_time end_time duration =
     (case duration of
        None \<Rightarrow> []
      | Some d \<Rightarrow>
          if end_time - start_time < d then temp_file w 1 (output_extension output_file)
          else [])"

subsection \<open>The retention rule in the words of the specification\<close>

text \<open>
  The one-second window after an onset, its rise above the mean of the whole envelope,
  the retention test and the record of a retained onset, as section 4.4 of the
  specification words them. The loop of the source is compared with these.
\<close>

definition onset_window :: "real list \<Rightarrow> real \<Rightarrow> int \<Rightarrow> real list" where
  "onset_window env fs idx = py_slice env idx (idx + py_int fs)"

definition spec_env_delta :: "real list \<Rightarrow> real \<Rightarrow> int \<Rightarrow> real" where
  "spec_env_delta env fs idx = Max (set (onset_window env fs idx)) - np_mean env"

definition spec_retained :: "real list \<Rightarrow> real \<Rightarrow> real \<Rightarrow> real \<times> int \<Rightarrow> bool" where
  "spec_retained env fs th z =
     (onset_window env fs (snd z) \<noteq> [] \<and> spec_env_delta env fs (snd z) > th)"

definition spec_record :: "real list \<Rightarrow> real \<Rightarrow> real \<times> int \<Rightarrow> segment_record" where
  "spec_record env fs z =
     \<lparr>time = fst z, env_max = Max (set (onset_window env fs (snd z))),
      env_mean = np_mean (onset_window env fs (snd z)),
      env_std = np_std (onset_window env fs (snd z)),
      env_delta = spec_env_delta env fs (snd z)\<rparr>"

subsection \<open>Stand-in collaborators for the examples\<close>

text \<open>
  Small concrete collaborators, used only to evaluate the model on concrete inputs. The
  audio file \<^verbatim>\<open>a.wav\<close> holds six silent samples at 2 Hz; the pitch tracker reports
  four frames; \<open>canny\<close> returns the first difference \<open>[1, -1]\<close>; \<open>filtfilt\<close>
  returns a flat envelope of the length of its input; \<open>cqt\<close> has one bin and one frame
  per sample; the peak pickers return the indices where the curve exceeds \<^verbatim>\<open>delta\<close>
  (0.07 when it is not passed), which are strictly increasing. \<open>demo_last_frame\<close> is
  the same with a peak picker that reports the last frame of the curve.
\<close>

definition demo_collaborators :: collaborators where
  "demo_collaborators =
     \<lparr>claudio_read = (\<lambda>p sr ch bd. if p = ''a.wav'' then Inr ([0, 0, 0, 0, 0, 0], 2) else Inl IOError),
      hll = (\<lambda>p. Inr ([0, 1, 2, 5 / 2], [1, 0, 1, 1], [1, 1, 1, 1])),
      canny = (\<lambda>n s k. [1, - 1]),
      medfilt = (\<lambda>xs n. xs),
      filtfilt = (\<lambda>b a xs. Inr (replicate (length xs) 0)),
      cqt = (\<lambda>x sr hop. [map of_real x]),
      onset_detect =
        (\<lambda>env delta wait.
           filter (\<lambda>i. env ! i > (case delta of None \<Rightarrow> 7 / 100 | Some d \<Rightarrow> d))
             [0..<length env]),
      peak_pick =
        (\<lambda>env pre_max post_max pre_avg post_avg delta wait.
           filter (\<lambda>i. env ! i > delta) [0..<length env])\<rparr>"

definition demo_last_frame :: collaborators where
  "demo_last_frame =
     demo_collaborators\<lparr>peak_pick := (\<lambda>env pre_max post_max pre_avg post_avg delta wait. [length env - 1])\<rparr>"

text \<open>
  A file system stand-in: \<open>sox_trim\<close> writes the output when the input exists and the
  window is not empty, \<open>sox_soxi\<close> reports 10 Hz, the two temporary names are
  \<^verbatim>\<open>/tmp/n.<ext>\<close> and \<^verbatim>\<open>/tmp/t.<ext>\<close>, \<open>claudio_write\<close> creates its file, and
  \<open>sox_concatenate\<close> writes its output when every input exists. In
  \<open>demo_files_concat_fails\<close> the concatenation fails and writes nothing.
\<close>

definition demo_files :: file_collaborators where
  "demo_files =
     \<lparr>sox_trim = (\<lambda>i out s e fs. if i \<in> fs \<and> s < e then (True, insert out fs) else (False, fs)),
      sox_soxi = (\<lambda>i field fs. if i \<in> fs then Inr 10 else Inl IOError),
      temp_file = (\<lambda>k ext. (if k = 0 then ''/tmp/n.'' else ''/tmp/t.'') @ ext),
      claudio_write = (\<lambda>p samples sr fs. Inr (insert p fs)),
      sox_concatenate =
        (\<lambda>ins out fs. if list_all (\<lambda>p. p \<in> fs) ins then (True, insert out fs) else (False, fs))\<rparr>"

definition demo_files_concat_fails :: file_collaborators where
  "demo_files_concat_fails = demo_files\<lparr>sox_concatenate := (\<lambda>ins out fs. (False, fs))\<rparr>"

text \<open>
  A collaborator set whose \<open>canny\<close> returns every kernel multiplied by \<open>c\<close>, and one whose
  \<open>onset_detect\<close> sees every novelty curve multiplied by \<open>c\<close>. A strategy that
  normalises its kernel cannot tell the first from the original; a strategy that filters
  with the kernel as returned hands a curve multiplied by \<open>c\<close> to its peak picker.
\<close>

definition scaled_canny :: "real \<Rightarrow> collaborators \<Rightarrow> collaborators" where
  "scaled_canny c w = w\<lparr>canny := (\<lambda>n s k. map ((*) c) (canny w n s k))\<rparr>"

definition scaled_onset_curve :: "real \<Rightarrow> collaborators \<Rightarrow> collaborators" where
  "scaled_onset_curve c w =
     w\<lparr>onset_detect := (\<lambda>env delta wait. onset_detect w (map ((*) c) env) delta wait)\<rparr>"

section \<open>Properties\<close>

subsection \<open>Helper lemmas\<close>

lemma np_max_nonempty:
  assumes "xs \<noteq> []"
  shows "np_max xs = Inr (Max (set xs))"
proof (cases xs)
  case Nil
  with assms show ?thesis by simp
next
  case (Cons a ys)
  then show ?thesis using Max.set_eq_fold [of a ys] by (simp add: np_max_def)
qed

lemma np_min_nonempty: "xs \<noteq> [] \<Longrightarrow> \<exists>lo. np_min xs = Inr lo"
  by (cases xs) (simp_all add: np_min_def)

lemma length_lfilter: "length (lfilter b xs) = length xs"
  by (simp add: lfilter_def)

lemma length_decimate:
  "0 < n \<Longrightarrow> length (decimate n xs) = (length xs + n - 1) div n"
proof (induction n xs rule: decimate.induct)
  case (1 n)
  then show ?case by simp
next
  case (2 n x xs)
  show ?case
  proof (cases "n - 1 \<le> length xs")
    case True
    with 2 have "length (decimate n (drop (n - 1) xs)) = length xs div n" by simp
    with 2 show ?thesis by simp
  next
    case False
    with 2 have "length (decimate n (drop (n - 1) xs)) = 0" by simp
    moreover from False 2 have "(length xs + n) div n = 1" by simp
    ultimately show ?thesis using 2 by simp
  qed
qed

lemma frames_to_time_nat:
  "frames_to_time frames (real n) = map (\<lambda>k. real (k * n) / 22050) frames"
proof -
  have "py_int (real k * real n) = int (k * n)" for k
  proof -
    have "real k * real n = real (k * n)" by simp
    then show ?thesis unfolding py_int_def by (simp only: floor_of_nat of_nat_0_le_iff if_True)
  qed
  then show ?thesis by (simp add: frames_to_time_def)
qed

lemma slice_truncated:
  assumes "0 \<le> idx" "idx < int (length env)" "int (length env) < idx + n"
  shows "py_slice env idx (idx + n) = drop (nat idx) env" "py_slice env idx (idx + n) \<noteq> []"
  using assms by (simp_all add: py_slice_def slice_bound_def Let_def)

lemma slice_beyond:
  assumes "int (length env) \<le> idx" "0 \<le> n"
  shows "py_slice env idx (idx + n) = []"
  using assms by (auto simp add: py_slice_def slice_bound_def Let_def)

lemma segment_loop_filter:
  "segment_loop env fs th recs zs =
     Inr (recs @ map (spec_record env fs) (filter (spec_retained env fs th) zs))"
proof (induction zs arbitrary: recs)
  case Nil
  show ?case by simp
next
  case (Cons z zs)
  obtain tm idx where z: "z = (tm, idx)" by (cases z)
  show ?case
  proof (cases "onset_window env fs idx = []")
    case True
    then show ?thesis
      using Cons.IH by (simp add: z spec_retained_def onset_window_def)
  next
    case False
    then have mx: "np_max (py_slice env idx (idx + py_int fs)) =
        Inr (Max (set (onset_window env fs idx)))"
      by (simp add: np_max_nonempty onset_window_def)
    from False show ?thesis
      using Cons.IH mx
      by (simp add: z spec_retained_def spec_record_def spec_env_delta_def onset_window_def Let_def)
  qed
qed

lemma segment_loop_total: "\<exists>out. segment_loop env fs th recs zs = Inr out"
  by (simp add: segment_loop_filter)

lemma segment_unfold:
  "segment w g audio_file mode th kw =
     (case claudio_read w audio_file 22050 1 2 of
        Inl e \<Rightarrow> Inl e
      | Inr (x, fs) \<Rightarrow>
          (case strategy_onsets w g audio_file mode x fs kw of
             Inl e \<Rightarrow> Inl e
           | Inr ts \<Rightarrow>
               (case log_envelope w x fs 100 of
                  Inl e \<Rightarrow> Inl e
                | Inr env \<Rightarrow> segment_loop env fs th [] (zip ts (time_to_samples ts fs)))))"
  unfolding segment_def strategy_onsets_def Let_def by (rule refl)

lemma segment_via_onsets:
  "segment w g audio_file mode th kw =
     (case claudio_read w audio_file 22050 1 2 of
        Inl e \<Rightarrow> Inl e
      | Inr (x, fs) \<Rightarrow>
          segment_from_onsets w x fs th (strategy_onsets w g audio_file mode x fs kw))"
  unfolding segment_def strategy_onsets_def segment_from_onsets_def Let_def by (rule refl)

lemma subseq_map_fst_filter_zip:
  "length ts = length js \<Longrightarrow> subseq (map fst (filter P (zip ts js))) ts"
proof -
  assume "length ts = length js"
  then have "map fst (zip ts js) = ts" by simp
  moreover have "subseq (map fst (filter P (zip ts js))) (map fst (zip ts js))"
    by (rule subseq_map) simp
  ultimately show ?thesis by simp
qed

lemma map_of_ONSETS_unknown:
  "mode \<notin> {''hll'', ''logcqt'', ''envelope''} \<Longrightarrow> map_of ONSETS mode = None"
  by (simp add: ONSETS_def)

lemma random_normal_cong:
  "(\<forall>i<n. g1 i = g2 i) \<Longrightarrow> random_normal g1 loc scale n = random_normal g2 loc scale n"
  by (simp add: random_normal_def)

lemma sum_list_abs_divide:
  "sum_list (map (\<lambda>c. \<bar>c / s\<bar>) (k :: real list)) = sum_list (map abs k) / \<bar>s\<bar>"
  by (induction k) (simp_all add: add_divide_distrib)

lemma sum_list_abs_nonneg: "0 \<le> sum_list (map abs (k :: real list))"
  by (induction k) simp_all

lemma envelope_onsets_frames:
  assumes "filtfilt w (map (\<lambda>v. v / sum_list (np_hanning 100)) (np_hanning 100)) [1]
             (map (\<lambda>v. 10 * log 10 (10 powr (- 9 / 2) + v\<^sup>2)) x) = Inr env"
    and "env \<noteq> []"
  shows "\<exists>curve. length curve = (length env + 99) div 100 \<and>
           envelope_onsets w g x fs wait =
             Inr (frames_to_time (peak_pick w curve 500 500 10 10 (1 / 40) wait) 100)"
proof -
  from assms(2) obtain lo where lo: "np_min env = Inr lo"
    using np_min_nonempty by blast
  let ?curve = "map (\<lambda>v. v * (if v > 0 then 1 else 0))
      (lfilter (envelope_kernel w) (map (\<lambda>v. v - lo) (decimate 100 env)))"
  have "length ?curve = (length env + 99) div 100"
    by (simp add: length_lfilter length_decimate)
  moreover have "envelope_onsets w g x fs wait =
      Inr (frames_to_time (peak_pick w ?curve 500 500 10 10 (1 / 40) wait) 100)"
    using assms(1) lo by (simp add: envelope_onsets_def Let_def)
  ultimately show ?thesis by blast
qed

lemma clip_cleanup_result:
  assumes "clip_cleanup fs out noise tmp = (Inr r, fs')"
  shows "r = (path_exists fs' out \<and> \<not> path_exists fs' noise \<and> \<not> path_exists fs' tmp)"
    and "\<not> path_exists fs' noise" and "\<not> path_exists fs' tmp"
  using assms
  by (auto simp: clip_cleanup_def os_remove_def path_exists_def split: if_splits)

lemma clip_cleanup_no_temp:
  "clip_cleanup fs out [] [] = (Inr (path_exists fs out), fs)"
  by (simp add: clip_cleanup_def path_exists_def)

lemma extract_clip_returns_cleanup:
  assumes "extract_clip w g fs i out s e d nf = (Inr r, fs')"
  shows "\<exists>fs0. clip_cleanup fs0 out (clip_noise_file w s e d) (clip_tmp_output_file w out s e d)
           = (Inr r, fs')"
proof (cases d)
  case None
  with assms show ?thesis
    by (auto simp: extract_clip_def clip_noise_file_def clip_tmp_output_file_def Let_def
        split: prod.splits)
next
  case (Some dd)
  show ?thesis
  proof (cases "e - s < dd")
    case False
    with Some assms show ?thesis
      by (auto simp: extract_clip_def clip_noise_file_def clip_tmp_output_file_def Let_def
          split: prod.splits)
  next
    case True
    with Some assms show ?thesis
      by (auto simp: extract_clip_def clip_noise_file_def clip_tmp_output_file_def Let_def
          split: prod.splits sum.splits if_splits)
  qed
qed

lemma lfilter_scale: "lfilter (map ((*) c) b) xs = map ((*) c) (lfilter b xs)"
proof -
  have "(\<Sum>k\<leftarrow>[0..<min (length b) (Suc n)]. map ((*) c) b ! k * xs ! (n - k)) =
        c * (\<Sum>k\<leftarrow>[0..<min (length b) (Suc n)]. b ! k * xs ! (n - k))" for n
  proof -
    have "map (\<lambda>k. map ((*) c) b ! k * xs ! (n - k)) [0..<min (length b) (Suc n)] =
          map (\<lambda>k. c * (b ! k * xs ! (n - k))) [0..<min (length b) (Suc n)]"
      by (rule map_cong) simp_all
    then show ?thesis by (simp only: sum_list_const_mult)
  qed
  then show ?thesis by (simp add: lfilter_def)
qed

lemma positive_part_scale:
  "0 < c \<Longrightarrow> map (\<lambda>v. v * (if v > 0 then 1 else 0)) (map ((*) c) xs) =
     map ((*) c) (map (\<lambda>v. v * (if v > 0 then 1 else (0::real))) xs)"
  by (simp add: zero_less_mult_iff)

lemma np_mean_scale: "np_mean (map ((*) c) xs) = c * np_mean xs"
  by (simp add: np_mean_def sum_list_const_mult)

lemma mean_axis0_scale: "mean_axis0 (map (map ((*) c)) m) = map ((*) c) (mean_axis0 m)"
  by (simp add: mean_axis0_def transpose_map_map np_mean_scale comp_def)

lemma envelope_kernel_scale: "0 < c \<Longrightarrow> envelope_kernel (scaled_canny c w) = envelope_kernel w"
proof -
  assume c: "0 < c"
  let ?k = "canny w 100 (7 / 2) 1"
  have "sum_list (map abs (map ((*) c) ?k)) = c * sum_list (map abs ?k)"
    using c by (simp add: abs_mult sum_list_const_mult comp_def)
  with c show ?thesis
    by (simp add: envelope_kernel_def scaled_canny_def Let_def comp_def)
qed

lemma envelope_onsets_scale:
  "0 < c \<Longrightarrow> envelope_onsets (scaled_canny c w) g x fs wait = envelope_onsets w g x fs wait"
proof -
  assume "0 < c"
  then have k: "envelope_kernel (scaled_canny c w) = envelope_kernel w"
    by (rule envelope_kernel_scale)
  have f: "filtfilt (scaled_canny c w) = filtfilt w" and p: "peak_pick (scaled_canny c w) = peak_pick w"
    by (simp_all add: scaled_canny_def)
  show ?thesis unfolding envelope_onsets_def k f p by (rule refl)
qed

lemma hll_onsets_scale:
  "0 < c \<Longrightarrow> hll_onsets (scaled_canny c w) g filename mfilt_len threshold wait =
     hll_onsets (scaled_onset_curve c w) g filename mfilt_len threshold wait"
proof -
  assume c: "0 < c"
  have k: "hll_kernel (scaled_canny c w) = map ((*) c) (hll_kernel w)"
    "hll_kernel (scaled_onset_curve c w) = hll_kernel w"
    by (simp_all add: hll_kernel_def scaled_canny_def scaled_onset_curve_def)
  have o: "hll (scaled_canny c w) = hll w" "medfilt (scaled_canny c w) = medfilt w"
    "onset_detect (scaled_canny c w) = onset_detect w"
    "hll (scaled_onset_curve c w) = hll w" "medfilt (scaled_onset_curve c w) = medfilt w"
    "onset_detect (scaled_onset_curve c w) =
       (\<lambda>env delta wait. onset_detect w (map ((*) c) env) delta wait)"
    by (simp_all add: scaled_canny_def scaled_onset_curve_def)
  show ?thesis
    unfolding hll_onsets_def Let_def k o lfilter_scale positive_part_scale [OF c] by (rule refl)
qed

lemma logcqt_onsets_scale:
  "logcqt_onsets (scaled_canny c w) g x fs pre_max post_max pre_avg post_avg delta wait hop_length =
   logcqt_onsets (scaled_onset_curve c w) g x fs pre_max post_max pre_avg post_avg delta wait
     hop_length"
proof -
  have k: "logcqt_kernel (scaled_canny c w) = map ((*) c) (logcqt_kernel w)"
    "logcqt_kernel (scaled_onset_curve c w) = logcqt_kernel w"
    by (simp_all add: logcqt_kernel_def scaled_canny_def scaled_onset_curve_def)
  have l: "logcqt (scaled_canny c w) = logcqt w" "logcqt (scaled_onset_curve c w) = logcqt w"
    by (simp_all add: logcqt_def scaled_canny_def scaled_onset_curve_def fun_eq_iff)
  have o: "onset_detect (scaled_canny c w) = onset_detect w"
    "onset_detect (scaled_onset_curve c w) =
       (\<lambda>env delta wait. onset_detect w (map ((*) c) env) delta wait)"
    by (simp_all add: scaled_canny_def scaled_onset_curve_def)
  have m: "mean_axis0 (map (lfilter (map ((*) c) b)) rows) =
      map ((*) c) (mean_axis0 (map (lfilter b) rows))" for b rows
  proof -
    have "map (lfilter (map ((*) c) b)) rows = map (map ((*) c)) (map (lfilter b) rows)"
      by (simp add: lfilter_scale)
    then show ?thesis by (simp only: mean_axis0_scale)
  qed
  show ?thesis unfolding logcqt_onsets_def Let_def k l o m by (rule refl)
qed

subsection \<open>The clip extractor: cleanup and the result (C1, C10)\<close>

text \<open>
  The second removal (line 192) names \<^verbatim>\<open>noise_file\<close> where \<^verbatim>\<open>tmp_output_file\<close> is
  meant. Whenever the temporary output still exists at that point the noise file does
  not, so the removal raises and the temporary output stays.
\<close>

lemma clip_cleanup_second_removal_raises:
  "path_exists fs tmp \<Longrightarrow> tmp \<noteq> noise \<Longrightarrow>
     fst (clip_cleanup fs out noise tmp) = Inl FileNotFoundError"
  by (auto simp: clip_cleanup_def os_remove_def path_exists_def)

lemma ext_wav: "output_extension ''out.wav'' = ''wav''"
  by (simp add: output_extension_def)

text \<open>
  Claim C1 (every temporary file is removed on every exit path, failure is reported by
  the boolean result and never by raising, and the result is true only if the output
  exists and no temporary file remains). The code does not do this when a step of the
  padding branch fails. With \<^verbatim>\<open>duration=1.0\<close> on the window \<open>[1.0, 1.2)\<close> and a
  concatenation that fails, \<^verbatim>\<open>os.rename\<close> finds no temporary output and raises
  FileNotFoundError; the exception leaves \<^verbatim>\<open>extract_clip\<close>, no boolean is returned,
  and the noise file \<^verbatim>\<open>/tmp/n.wav\<close> stays on disk.
\<close>

theorem extract_clip_raises_and_leaves_noise_file:
  "extract_clip demo_files_concat_fails (\<lambda>i. 0) {''in.wav''} ''in.wav'' ''out.wav'' 1 (6 / 5) (Some 1)
     (- 65) =
   (Inl FileNotFoundError, {''/tmp/n.wav'', ''out.wav'', ''in.wav''})"
  by (simp add: extract_clip_def demo_files_concat_fails_def demo_files_def ext_wav py_int_def os_rename_def
      path_exists_def Let_def) 

lemma extract_clip_demo_ok:
  "extract_clip demo_files (\<lambda>i. 0) {''in.wav''} ''in.wav'' ''out.wav'' 1 (6 / 5) (Some 1)
     (- 65) =
   (Inr True, {''in.wav'', ''out.wav''})"
  by (auto simp add: extract_clip_def demo_files_def ext_wav py_int_def os_rename_def os_remove_def
      clip_cleanup_def path_exists_def Let_def) 

text \<open>
  Claim C10. With \<^verbatim>\<open>duration=None\<close> the call is \<open>sox_trim\<close> on the unchanged window
  \<open>[start_time, end_time)\<close> followed by the existence test: the files left are the
  files \<open>sox_trim\<close> left, so no temporary file was created, and the result is whether
  the output exists. For every \<^verbatim>\<open>duration\<close>, replacing the flag \<open>sox_trim\<close> returns by
  any other flag changes neither the result nor the files. Whenever the call returns,
  its result is the conjunction: the output exists, the noise file does not, the
  temporary output does not.
\<close>

theorem extract_clip_result_ignores_trim_flag:
  "extract_clip w g fs i out s e None nf =
     (Inr (path_exists (snd (sox_trim w i out s e fs)) out), snd (sox_trim w i out s e fs)) \<and>
   extract_clip (w\<lparr>sox_trim := (\<lambda>a b c d f. (flag a b c d f, snd (sox_trim w a b c d f)))\<rparr>)
       g fs i out s e d nf =
     extract_clip w g fs i out s e d nf \<and>
   (extract_clip w g fs i out s e d nf = (Inr r, fs') \<longrightarrow>
      r = (path_exists fs' out \<and> \<not> path_exists fs' (clip_noise_file w s e d) \<and>
           \<not> path_exists fs' (clip_tmp_output_file w out s e d)))"
proof -
  have a: "extract_clip w g fs i out s e None nf =
     (Inr (path_exists (snd (sox_trim w i out s e fs)) out), snd (sox_trim w i out s e fs))"
    by (simp add: extract_clip_def clip_cleanup_no_temp Let_def split: prod.splits)
  have b: "extract_clip (w\<lparr>sox_trim := (\<lambda>a b c d f. (flag a b c d f, snd (sox_trim w a b c d f)))\<rparr>)
       g fs i out s e d nf = extract_clip w g fs i out s e d nf"
    by (cases d) (auto simp: extract_clip_def Let_def split: prod.splits sum.splits)
  have c: "r = (path_exists fs' out \<and> \<not> path_exists fs' (clip_noise_file w s e d) \<and>
           \<not> path_exists fs' (clip_tmp_output_file w out s e d))"
    if "extract_clip w g fs i out s e d nf = (Inr r, fs')"
    using extract_clip_returns_cleanup [OF that] clip_cleanup_result(1) by blast
  from a b c show ?thesis by blast
qed

theorem extract_clip_result_ignores_trim_flag_witness:
  "extract_clip demo_files (\<lambda>i. 0) {''in.wav''} ''in.wav'' ''out.wav'' 1 (6 / 5) (Some 1) (- 65) =
     (Inr True, {''in.wav'', ''out.wav''}) \<and>
   True = (path_exists {''in.wav'', ''out.wav''} ''out.wav'' \<and>
     \<not> path_exists {''in.wav'', ''out.wav''} (clip_noise_file demo_files 1 (6 / 5) (Some 1)) \<and>
     \<not> path_exists {''in.wav'', ''out.wav''} (clip_tmp_output_file demo_files ''out.wav'' 1 (6 / 5) (Some 1)))"
proof -
  note r = extract_clip_demo_ok
  from extract_clip_result_ignores_trim_flag [of demo_files "\<lambda>i. 0" "{''in.wav''}" "''in.wav''"
      "''out.wav''" 1 "6 / 5" "- 65" "\<lambda>a b c d f. True" "Some 1" True "{''in.wav'', ''out.wav''}"] r
  show ?thesis by blast
qed

subsection \<open>The segmenter: retention (C2) and window edge cases (C5)\<close>

text \<open>
  Claim C2. Whenever \<^verbatim>\<open>segment\<close> (signal.py) returns, its records are, in onset
  order, the records of exactly the onsets whose one-second window is non-empty and
  whose \<^verbatim>\<open>env_delta\<close> (the maximum of the window minus the mean of the whole envelope)
  exceeds \<^verbatim>\<open>db_delta_thresh\<close>. So every retained record has
  \<^verbatim>\<open>env_delta > db_delta_thresh\<close>, every discarded onset with a non-empty window has
  \<^verbatim>\<open>env_delta \<le> db_delta_thresh\<close>, and the times of the records are a subsequence of
  the onset times.
\<close>

theorem segment_retains_iff_delta_exceeds_threshold:
  assumes "segment w g audio_file mode th kw = Inr recs"
  shows "\<exists>x fs ts env.
           claudio_read w audio_file 22050 1 2 = Inr (x, fs) \<and>
           strategy_onsets w g audio_file mode x fs kw = Inr ts \<and>
           log_envelope w x fs 100 = Inr env \<and>
           recs = map (spec_record env fs)
                    (filter (spec_retained env fs th) (zip ts (time_to_samples ts fs))) \<and>
           (\<forall>r \<in> set recs. env_delta r > th) \<and>
           (\<forall>z \<in> set (zip ts (time_to_samples ts fs)).
              onset_window env fs (snd z) \<noteq> [] \<and> \<not> spec_retained env fs th z \<longrightarrow>
              spec_env_delta env fs (snd z) \<le> th) \<and>
           subseq (map time recs) ts"
proof -
  from assms obtain x fs where rd: "claudio_read w audio_file 22050 1 2 = Inr (x, fs)"
    by (auto simp: segment_unfold split: sum.splits)
  from assms rd obtain ts where ts: "strategy_onsets w g audio_file mode x fs kw = Inr ts"
    by (auto simp: segment_unfold split: sum.splits)
  from assms rd ts obtain env where env: "log_envelope w x fs 100 = Inr env"
    by (auto simp: segment_unfold split: sum.splits)
  let ?zs = "zip ts (time_to_samples ts fs)"
  from assms rd ts env have recs:
    "recs = map (spec_record env fs) (filter (spec_retained env fs th) ?zs)"
    by (simp add: segment_unfold segment_loop_filter)
  have d: "\<forall>r \<in> set recs. env_delta r > th"
    by (auto simp: recs spec_record_def spec_retained_def)
  have n: "\<forall>z \<in> set ?zs.
      onset_window env fs (snd z) \<noteq> [] \<and> \<not> spec_retained env fs th z \<longrightarrow>
      spec_env_delta env fs (snd z) \<le> th"
    by (auto simp: spec_retained_def)
  have "map time recs = map fst (filter (spec_retained env fs th) ?zs)"
    by (simp add: recs spec_record_def comp_def)
  then have s: "subseq (map time recs) ts"
    by (simp add: subseq_map_fst_filter_zip time_to_samples_def)
  from rd ts env recs d n s show ?thesis by blast
qed

lemma demo_segment_hll:
  "segment demo_collaborators (\<lambda>i. 0) ''a.wav'' ''hll'' (- 1) [] =
     Inr [\<lparr>time = 0, env_max = 0, env_mean = 0, env_std = np_std [0, 0], env_delta = 0\<rparr>,
          \<lparr>time = 2, env_max = 0, env_mean = 0, env_std = np_std [0, 0], env_delta = 0\<rparr>]"
  by (simp add: segment_def demo_collaborators_def hll_onsets_def hll_kernel_def np_mul_def np_take_def lfilter_def
      log_envelope_def time_to_samples_def py_int_def py_slice_def slice_bound_def np_max_def
      np_mean_def Let_def)

theorem segment_retains_iff_delta_exceeds_threshold_witness:
  "segment demo_collaborators (\<lambda>i. 0) ''a.wav'' ''hll'' (- 1) [] =
     Inr [\<lparr>time = 0, env_max = 0, env_mean = 0, env_std = np_std [0, 0], env_delta = 0\<rparr>,
          \<lparr>time = 2, env_max = 0, env_mean = 0, env_std = np_std [0, 0], env_delta = 0\<rparr>] \<and>
   (\<exists>ts env. strategy_onsets demo_collaborators (\<lambda>i. 0) ''a.wav'' ''hll'' [0, 0, 0, 0, 0, 0] 2 [] = Inr ts \<and>
      log_envelope demo_collaborators [0, 0, 0, 0, 0, 0] 2 100 = Inr env \<and>
      subseq [0, 2] ts)"
proof -
  note r = demo_segment_hll
  from segment_retains_iff_delta_exceeds_threshold [OF r]
  obtain x fs ts env where
    rd: "claudio_read demo_collaborators ''a.wav'' 22050 1 2 = Inr (x, fs)" and
    ts: "strategy_onsets demo_collaborators (\<lambda>i. 0) ''a.wav'' ''hll'' x fs [] = Inr ts" and
    env: "log_envelope demo_collaborators x fs 100 = Inr env" and
    sub: "subseq (map time
       [\<lparr>time = 0, env_max = 0, env_mean = 0, env_std = np_std [0, 0], env_delta = 0\<rparr>,
        \<lparr>time = 2, env_max = 0, env_mean = 0, env_std = np_std [0, 0], env_delta = 0\<rparr>]) ts"
    by blast
  from rd have "x = [0, 0, 0, 0, 0, 0]" and "fs = 2" by (simp_all add: demo_collaborators_def)
  with ts env sub r show ?thesis by auto
qed

text \<open>
  The plotting variant in segment.py has no \<^verbatim>\<open>db_delta_thresh\<close>: it keeps one record
  per onset, measures \<^verbatim>\<open>env_delta\<close> from the minimum of the envelope, and raises
  ValueError at the first onset whose window is empty.
\<close>

lemma segment_py_loop_keeps_every_onset:
  "segment_py_loop env fs recs zs = Inr out \<Longrightarrow> length out = length recs + length zs"
proof (induction zs arbitrary: recs)
  case Nil
  then show ?case by simp
next
  case (Cons z zs)
  obtain tm idx where z: "z = (tm, idx)" by (cases z)
  from Cons.prems obtain r where
    "segment_py_loop env fs (recs @ [r]) zs = Inr out"
    by (auto simp: z Let_def split: sum.splits)
  from Cons.IH [OF this] show ?case by simp
qed

lemma segment_py_loop_raises_on_empty_window:
  "onset_window env fs idx = [] \<Longrightarrow>
     segment_py_loop env fs recs ((tm, idx) # rest) = Inl ValueError"
  by (simp add: onset_window_def np_max_def)

text \<open>
  Claim C5. An onset whose one-second window runs past the end of the envelope is not
  discarded for that: it is evaluated on the truncated, non-empty window
  \<open>drop idx env\<close>, its record is computed over that window, and it passes the same
  threshold test as every other onset. An onset whose window is empty, as that of every
  onset at or beyond the end is, is skipped. The loop never raises, whatever the onset
  indices are.
\<close>

theorem segment_window_edge_cases:
  "(0 \<le> idx \<and> idx < int (length env) \<and> int (length env) < idx + py_int fs \<longrightarrow>
      onset_window env fs idx = drop (nat idx) env \<and> drop (nat idx) env \<noteq> [] \<and>
      segment_loop env fs th recs ((tm, idx) # rest) =
        segment_loop env fs th
          (if th < Max (set (drop (nat idx) env)) - np_mean env
           then recs @ [\<lparr>time = tm, env_max = Max (set (drop (nat idx) env)),
                          env_mean = np_mean (drop (nat idx) env),
                          env_std = np_std (drop (nat idx) env),
                          env_delta = Max (set (drop (nat idx) env)) - np_mean env\<rparr>]
           else recs) rest) \<and>
   (onset_window env fs idx = [] \<longrightarrow>
      segment_loop env fs th recs ((tm, idx) # rest) = segment_loop env fs th recs rest) \<and>
   (int (length env) \<le> idx \<and> 0 \<le> fs \<longrightarrow> onset_window env fs idx = []) \<and>
   (\<exists>out. segment_loop env fs th recs zs = Inr out)"
proof -
  have a: "onset_window env fs idx = drop (nat idx) env \<and> drop (nat idx) env \<noteq> [] \<and>
      segment_loop env fs th recs ((tm, idx) # rest) =
        segment_loop env fs th
          (if th < Max (set (drop (nat idx) env)) - np_mean env
           then recs @ [\<lparr>time = tm, env_max = Max (set (drop (nat idx) env)),
                          env_mean = np_mean (drop (nat idx) env),
                          env_std = np_std (drop (nat idx) env),
                          env_delta = Max (set (drop (nat idx) env)) - np_mean env\<rparr>]
           else recs) rest"
    if h: "0 \<le> idx \<and> idx < int (length env) \<and> int (length env) < idx + py_int fs"
  proof -
    from h have w: "py_slice env idx (idx + py_int fs) = drop (nat idx) env"
      and ne: "drop (nat idx) env \<noteq> []"
      using slice_truncated [of idx env "py_int fs"] by simp_all
    from ne have "np_max (drop (nat idx) env) = Inr (Max (set (drop (nat idx) env)))"
      by (rule np_max_nonempty)
    with w ne show ?thesis
      by (simp add: onset_window_def Let_def)
  qed
  have b: "segment_loop env fs th recs ((tm, idx) # rest) = segment_loop env fs th recs rest"
    if "onset_window env fs idx = []"
    using that by (simp add: onset_window_def)
  have c: "onset_window env fs idx = []" if "int (length env) \<le> idx \<and> 0 \<le> fs"
    using that slice_beyond [of env idx "py_int fs"] by (simp add: onset_window_def py_int_def)
  from a b c segment_loop_total show ?thesis by blast
qed

theorem segment_window_edge_cases_witness:
  "onset_window [0, 0, 0] 2 2 = drop (nat 2) [0, 0, 0] \<and>
   segment_loop [0, 0, 0] 2 (- 1) [] [(1, 2)] =
     Inr [\<lparr>time = 1, env_max = 0, env_mean = 0, env_std = np_std [0], env_delta = 0\<rparr>] \<and>
   segment_loop [0, 0, 0] 2 (- 1) [] [(3 / 2, 3)] = Inr []"
proof -
  have h: "(0::int) \<le> 2 \<and> 2 < int (length [0, 0, 0 :: real]) \<and>
      int (length [0, 0, 0 :: real]) < 2 + py_int 2"
    by (simp add: py_int_def)
  have e: "int (length [0, 0, 0 :: real]) \<le> 3 \<and> (0::real) \<le> 2" by simp
  note t1 = segment_window_edge_cases [of 2 "[0, 0, 0]" 2 "- 1" "[]" 1 "[]" "[]"]
  note t2 = segment_window_edge_cases [of 3 "[0, 0, 0]" 2 "- 1" "[]" "3 / 2" "[]" "[]"]
  from t1 h have 1: "onset_window [0, 0, 0] 2 2 = drop (nat 2) [0, 0, 0]" by blast
  from t1 h have 2: "segment_loop [0, 0, 0] 2 (- 1) [] [(1, 2)] =
     Inr [\<lparr>time = 1, env_max = 0, env_mean = 0, env_std = np_std [0], env_delta = 0\<rparr>]"
    by (simp add: np_mean_def)
  from t2 e have "onset_window [0, 0, 0 :: real] 2 3 = []" by blast
  with t2 have 3: "segment_loop [0, 0, 0] 2 (- 1) [] [(3 / 2, 3)] = Inr []" by simp
  from 1 2 3 show ?thesis by blast
qed

text \<open>
  So \<^verbatim>\<open>segment\<close> returns a table whenever reading the file, the strategy and the
  envelope return: its loop adds no failure.
\<close>

lemma segment_returns_when_collaborators_return:
  assumes "claudio_read w audio_file 22050 1 2 = Inr (x, fs)"
    and "strategy_onsets w g audio_file mode x fs kw = Inr ts"
    and "log_envelope w x fs 100 = Inr env"
  shows "\<exists>recs. segment w g audio_file mode th kw = Inr recs"
  using assms by (simp add: segment_unfold segment_loop_total)

subsection \<open>The segmenter: strategy selection (C6, C9)\<close>

text \<open>
  Claim C6, amended. A strategy name other than \<^verbatim>\<open>'hll'\<close>, \<^verbatim>\<open>'logcqt'\<close> and
  \<^verbatim>\<open>'envelope'\<close> always makes \<^verbatim>\<open>segment\<close> fail, and no table is returned. The
  name is looked at only after the audio file is read: if reading fails, the error of
  the read is raised; otherwise the missing table entry is called and raises TypeError,
  before any strategy or the envelope is computed.
\<close>

theorem segment_unknown_strategy_fails:
  assumes "mode \<notin> {''hll'', ''logcqt'', ''envelope''}"
  shows "segment w g audio_file mode th kw =
           (case claudio_read w audio_file 22050 1 2 of
              Inl e \<Rightarrow> Inl e
            | Inr p \<Rightarrow> Inl TypeError) \<and>
         (\<exists>e. segment w g audio_file mode th kw = Inl e)"
proof -
  from assms have m: "mode \<noteq> ''hll''" and n: "map_of ONSETS mode = None"
    by (simp_all add: ONSETS_def)
  have s: "strategy_onsets w g audio_file mode x fs kw = Inl TypeError" for x fs
    using m n by (simp add: strategy_onsets_def call_onsets_def)
  have 1: "segment w g audio_file mode th kw =
           (case claudio_read w audio_file 22050 1 2 of
              Inl e \<Rightarrow> Inl e
            | Inr p \<Rightarrow> Inl TypeError)"
    by (simp add: segment_unfold s split: sum.splits)
  then show ?thesis by (auto split: sum.splits)
qed

theorem segment_unknown_strategy_fails_witness:
  "''chroma'' \<notin> {''hll'', ''logcqt'', ''envelope''} \<and>
   segment demo_collaborators (\<lambda>i. 0) ''a.wav'' ''chroma'' (5 / 2) [] = Inl TypeError"
proof -
  have h: "''chroma'' \<notin> {''hll'', ''logcqt'', ''envelope''}" by simp
  from segment_unknown_strategy_fails [OF h, of demo_collaborators "\<lambda>i. 0" "''a.wav''" "5 / 2" "[]"]
  show ?thesis by (simp add: demo_collaborators_def)
qed

text \<open>
  The failure does not name the parameter. On a file that cannot be read an unknown
  name and a known name raise the same IOError, and on a readable file an unknown name
  raises the TypeError that a misspelt keyword argument of a known strategy raises.
\<close>

theorem unknown_strategy_error_is_not_a_parameter_error:
  "''chroma'' \<notin> {''hll'', ''logcqt'', ''envelope''} \<and>
   segment demo_collaborators (\<lambda>i. 0) ''missing.wav'' ''chroma'' (5 / 2) [] = Inl IOError \<and>
   segment demo_collaborators (\<lambda>i. 0) ''missing.wav'' ''envelope'' (5 / 2) [] = Inl IOError \<and>
   segment demo_collaborators (\<lambda>i. 0) ''a.wav'' ''chroma'' (5 / 2) [] = Inl TypeError \<and>
   segment demo_collaborators (\<lambda>i. 0) ''a.wav'' ''envelope'' (5 / 2) [(''bogus'', 1)] =
     Inl TypeError"
  by (simp add: segment_def demo_collaborators_def call_onsets_def ONSETS_def bind_kwargs_def)

text \<open>
  Claim C9. With mode \<^verbatim>\<open>'hll'\<close> the result does not depend on the keyword
  arguments: \<^verbatim>\<open>hll_onsets\<close> is called with the file path alone, so with
  \<^verbatim>\<open>mfilt_len=51, threshold=0.5, wait=100\<close>. With mode \<^verbatim>\<open>'logcqt'\<close> or
  \<^verbatim>\<open>'envelope'\<close> the keyword arguments are bound to the parameters of the strategy:
  each parameter takes the value passed under its name or else its default, and a name
  that is not a parameter raises TypeError.
\<close>

theorem segment_hll_discards_kwargs:
  "segment w g audio_file ''hll'' th kw = segment w g audio_file ''hll'' th kw' \<and>
   segment w g audio_file ''hll'' th kw =
     (case claudio_read w audio_file 22050 1 2 of
        Inl e \<Rightarrow> Inl e
      | Inr (x, fs) \<Rightarrow>
          segment_from_onsets w x fs th (hll_onsets w g audio_file 51 (1 / 2) 100)) \<and>
   segment w g audio_file ''logcqt'' th kw =
     (case claudio_read w audio_file 22050 1 2 of
        Inl e \<Rightarrow> Inl e
      | Inr (x, fs) \<Rightarrow>
          segment_from_onsets w x fs th
            (case bind_kwargs [''pre_max'', ''post_max'', ''pre_avg'', ''post_avg'', ''delta'',
                               ''wait'', ''hop_length''] kw of
               Inl e \<Rightarrow> Inl e
             | Inr arg \<Rightarrow>
                 Inr (logcqt_onsets w g x fs (arg ''pre_max'' 0) (arg ''post_max'' 1)
                        (arg ''pre_avg'' 0) (arg ''post_avg'' 1) (arg ''delta'' (1 / 20))
                        (arg ''wait'' 50) (arg ''hop_length'' 1024)))) \<and>
   segment w g audio_file ''envelope'' th kw =
     (case claudio_read w audio_file 22050 1 2 of
        Inl e \<Rightarrow> Inl e
      | Inr (x, fs) \<Rightarrow>
          segment_from_onsets w x fs th
            (case bind_kwargs [''wait''] kw of
               Inl e \<Rightarrow> Inl e
             | Inr arg \<Rightarrow> envelope_onsets w g x fs (arg ''wait'' 100))) \<and>
   bind_kwargs names kw =
     (if list_all (\<lambda>kv. fst kv \<in> set names) kw
      then Inr (\<lambda>name dflt. case map_of kw name of None \<Rightarrow> dflt | Some v \<Rightarrow> v)
      else Inl TypeError)"
proof -
  have h: "strategy_onsets w g audio_file ''hll'' x fs k = hll_onsets w g audio_file 51 (1 / 2) 100"
    for x fs k
    by (simp add: strategy_onsets_def)
  have l: "strategy_onsets w g audio_file ''logcqt'' x fs kw =
      (case bind_kwargs [''pre_max'', ''post_max'', ''pre_avg'', ''post_avg'', ''delta'',
                               ''wait'', ''hop_length''] kw of
               Inl e \<Rightarrow> Inl e
             | Inr arg \<Rightarrow>
                 Inr (logcqt_onsets w g x fs (arg ''pre_max'' 0) (arg ''post_max'' 1)
                        (arg ''pre_avg'' 0) (arg ''post_avg'' 1) (arg ''delta'' (1 / 20))
                        (arg ''wait'' 50) (arg ''hop_length'' 1024)))" for x fs
    by (simp add: strategy_onsets_def call_onsets_def ONSETS_def)
  have e: "strategy_onsets w g audio_file ''envelope'' x fs kw =
      (case bind_kwargs [''wait''] kw of
               Inl e \<Rightarrow> Inl e
             | Inr arg \<Rightarrow> envelope_onsets w g x fs (arg ''wait'' 100))" for x fs
    by (simp add: strategy_onsets_def call_onsets_def ONSETS_def)
  have b: "bind_kwargs names kw =
     (if list_all (\<lambda>kv. fst kv \<in> set names) kw
      then Inr (\<lambda>name dflt. case map_of kw name of None \<Rightarrow> dflt | Some v \<Rightarrow> v)
      else Inl TypeError)"
    by (simp add: bind_kwargs_def)
  show ?thesis
    by (simp only: segment_via_onsets h l e b)
qed

subsection \<open>The onset strategies (C3, C4, C7) and the envelope (C8)\<close>

text \<open>
  Claim C3, amended. \<^verbatim>\<open>hll_onsets\<close> and \<^verbatim>\<open>envelope_onsets\<close> draw no random
  numbers: their result does not depend on the state of the generator.
  \<^verbatim>\<open>logcqt_onsets\<close> draws one sample per input sample for its dither: two calls
  return the same onsets when these draws agree.
\<close>

theorem onsets_depend_on_noise_only_in_logcqt:
  "hll_onsets w ga filename mfilt_len threshold wait =
     hll_onsets w gb filename mfilt_len threshold wait \<and>
   envelope_onsets w ga x fs wait = envelope_onsets w gb x fs wait \<and>
   ((\<forall>i<length x. ga i = gb i) \<longrightarrow>
      logcqt_onsets w ga x fs pre_max post_max pre_avg post_avg delta wait hop_length =
      logcqt_onsets w gb x fs pre_max post_max pre_avg post_avg delta wait hop_length)"
proof -
  have "logcqt w ga x fs hop_length = logcqt w gb x fs hop_length"
    if "\<forall>i<length x. ga i = gb i"
    using random_normal_cong [OF that] by (simp add: logcqt_def)
  then show ?thesis
    by (simp add: hll_onsets_def envelope_onsets_def logcqt_onsets_def)
qed

theorem onsets_depend_on_noise_only_in_logcqt_witness:
  "logcqt_onsets demo_collaborators (\<lambda>i. 0) [0] 22050 0 1 0 1 (1 / 20) 50 1024 =
     logcqt_onsets demo_collaborators (\<lambda>i. if i = 0 then 0 else 1) [0] 22050 0 1 0 1 (1 / 20) 50 1024 \<and>
   envelope_onsets demo_collaborators (\<lambda>i. 0) [0] 22050 100 = envelope_onsets demo_collaborators (\<lambda>i. 1) [0] 22050 100"
proof -
  have h: "\<forall>i<length [0::real]. (\<lambda>i. 0::real) i = (\<lambda>i. if i = 0 then 0 else 1) i" by simp
  note t = onsets_depend_on_noise_only_in_logcqt
  from t [where w = demo_collaborators and ga = "\<lambda>i. 0" and gb = "\<lambda>i. if i = 0 then 0 else 1"
      and x = "[0]" and fs = 22050 and pre_max = 0 and post_max = 1 and pre_avg = 0
      and post_avg = 1 and delta = "1 / 20" and wait = 50 and hop_length = 1024] h
  have 1: "logcqt_onsets demo_collaborators (\<lambda>i. 0) [0] 22050 0 1 0 1 (1 / 20) 50 1024 =
     logcqt_onsets demo_collaborators (\<lambda>i. if i = 0 then 0 else 1) [0] 22050 0 1 0 1 (1 / 20) 50 1024"
    by blast
  from t [where w = demo_collaborators and ga = "\<lambda>i. 0" and gb = "\<lambda>i. 1" and x = "[0]" and fs = 22050
      and wait = 100]
  have 2: "envelope_onsets demo_collaborators (\<lambda>i. 0) [0] 22050 100 = envelope_onsets demo_collaborators (\<lambda>i. 1) [0] 22050 100"
    by blast
  from 1 2 show ?thesis by blast
qed

text \<open>
  Two calls of \<^verbatim>\<open>logcqt_onsets\<close> on the same one-sample silent signal, one drawing 0
  and one drawing 1 for the dither, return no onset and one onset.
\<close>

lemma ln6: "1 / 20 < ln (6::real)"
proof -
  have "exp (1::real) \<le> 3" by (rule exp_le)
  then have "exp (1::real) \<le> 6" by simp
  then have "1 \<le> ln (6::real)" by (simp add: ln_ge_iff)
  then show ?thesis by simp
qed

lemma logcqt_demo_quiet:
  "logcqt_onsets demo_collaborators (\<lambda>i. 0) [0] 22050 0 1 0 1 (1 / 20) 50 1024 = []"
  by (simp add: logcqt_onsets_def logcqt_def logcqt_kernel_def demo_collaborators_def random_normal_def
      lfilter_def mean_axis0_def np_mean_def frames_to_time_def Let_def)

lemma logcqt_demo_noisy:
  "logcqt_onsets demo_collaborators (\<lambda>i. 1) [0] 22050 0 1 0 1 (1 / 20) 50 1024 = [0]"
  using ln6
  by (simp add: logcqt_onsets_def logcqt_def logcqt_kernel_def demo_collaborators_def random_normal_def
      lfilter_def mean_axis0_def np_mean_def frames_to_time_def py_int_def Let_def)

theorem logcqt_onsets_not_deterministic:
  "logcqt_onsets demo_collaborators (\<lambda>i. 0) [0] 22050 0 1 0 1 (1 / 20) 50 1024 \<noteq>
   logcqt_onsets demo_collaborators (\<lambda>i. 1) [0] 22050 0 1 0 1 (1 / 20) 50 1024"
  by (simp add: logcqt_demo_quiet logcqt_demo_noisy)

text \<open>
  At librosa's default rate of 22050 Hz, which is the rate \<^verbatim>\<open>segment\<close> reads at, the
  times of \<^verbatim>\<open>envelope_onsets\<close> are strictly increasing, non-negative and below the
  duration, for a peak picker that returns strictly increasing indices into its curve.
\<close>

lemma envelope_onsets_times_at_22050:
  assumes cf: "\<And>b a xs ys. filtfilt w b a xs = Inr ys \<Longrightarrow> length ys = length xs"
    and cp: "\<And>c a1 a2 a3 a4 d wt. sorted_wrt (<) (peak_pick w c a1 a2 a3 a4 d wt) \<and>
               (\<forall>k \<in> set (peak_pick w c a1 a2 a3 a4 d wt). k < length c)"
    and r: "envelope_onsets w g x fs wait = Inr ts"
  shows "sorted_wrt (<) ts \<and> (\<forall>t \<in> set ts. 0 \<le> t \<and> t < real (length x) / 22050)"
proof -
  let ?wn = "map (\<lambda>v. v / sum_list (np_hanning 100)) (np_hanning 100)"
  let ?le = "map (\<lambda>v. 10 * log 10 (10 powr (- 9 / 2) + v\<^sup>2)) x"
  from r obtain env where f: "filtfilt w ?wn [1] ?le = Inr env"
    by (auto simp: envelope_onsets_def Let_def split: sum.splits)
  from r f have ne: "env \<noteq> []"
    by (auto simp: envelope_onsets_def Let_def np_min_def split: sum.splits)
  from cf [OF f] have len: "length env = length x" by simp
  from envelope_onsets_frames [OF f ne, of g fs wait] r obtain curve where
    c: "length curve = (length env + 99) div 100" and
    t: "ts = frames_to_time (peak_pick w curve 500 500 10 10 (1 / 40) wait) 100"
    by auto
  let ?ks = "peak_pick w curve 500 500 10 10 (1 / 40) wait"
  from cp [of curve 500 500 10 10 "1 / 40" wait]
  have s: "sorted_wrt (<) ?ks" and b: "\<forall>k \<in> set ?ks. k < length curve" by simp_all
  have t': "ts = map (\<lambda>k. real (k * 100) / 22050) ?ks"
    using t frames_to_time_nat [of ?ks 100] by simp
  have "sorted_wrt (<) ts"
    unfolding t' sorted_wrt_map
    by (rule sorted_wrt_mono_rel [OF _ s]) (simp add: divide_strict_right_mono)
  moreover have "0 \<le> v \<and> v < real (length x) / 22050" if "v \<in> set ts" for v
  proof -
    from that t' obtain k where k: "k \<in> set ?ks" and v: "v = real (k * 100) / 22050" by auto
    from b k c len have "k < (length x + 99) div 100" by simp
    then have "k * 100 < length x" by simp
    then have "real (k * 100) < real (length x)" by (simp only: of_nat_less_iff)
    then show ?thesis by (simp add: v divide_strict_right_mono)
  qed
  ultimately show ?thesis by blast
qed

text \<open>
  Claim C4 (the onset times of every strategy are strictly increasing, non-negative and
  at most the duration of the waveform, for every sample rate). The code converts frames
  to seconds at 22050 Hz whatever \<^verbatim>\<open>fs\<close> is. For a waveform of 401 samples at 44100 Hz
  (9.1 ms) and a peak at the last frame of the decimated envelope, frame 4,
  \<^verbatim>\<open>envelope_onsets\<close> returns 400 / 22050 s = 18.1 ms, beyond the end of the signal.
\<close>

theorem envelope_onset_time_exceeds_duration:
  "envelope_onsets demo_last_frame (\<lambda>i. 0) (replicate 401 0) 44100 100 = Inr [8 / 441] \<and>
   real (length (replicate 401 (0::real))) / 44100 < 8 / 441"
proof -
  have f: "filtfilt demo_last_frame (map (\<lambda>v. v / sum_list (np_hanning 100)) (np_hanning 100)) [1]
             (map (\<lambda>v. 10 * log 10 (10 powr (- 9 / 2) + v\<^sup>2)) (replicate 401 0)) =
           Inr (replicate 401 0)"
    by (simp add: demo_last_frame_def demo_collaborators_def)
  have n: "replicate 401 (0::real) \<noteq> []" by simp
  from envelope_onsets_frames [OF f n, of "\<lambda>i. 0" 44100 100]
  obtain curve where c: "length curve = (length (replicate 401 (0::real)) + 99) div 100"
    and e: "envelope_onsets demo_last_frame (\<lambda>i. 0) (replicate 401 0) 44100 100 =
      Inr (frames_to_time (peak_pick demo_last_frame curve 500 500 10 10 (1 / 40) 100) 100)"
    by blast
  from c have "length curve = 5" by simp
  then have "peak_pick demo_last_frame curve 500 500 10 10 (1 / 40) 100 = [4]"
    by (simp add: demo_last_frame_def)
  with e have "envelope_onsets demo_last_frame (\<lambda>i. 0) (replicate 401 0) 44100 100 = Inr [8 / 441]"
    by (simp add: frames_to_time_def py_int_def)
  then show ?thesis by simp
qed

text \<open>
  Claim C7, amended. Only \<^verbatim>\<open>envelope_onsets\<close> normalises its kernel: multiplying the
  kernel \<open>canny\<close> returns by any \<open>c > 0\<close> does not change its result, and the kernel it
  filters with has absolute values summing to 1 (when \<open>canny\<close> does not return an
  all-zero kernel). \<^verbatim>\<open>hll_onsets\<close> and \<^verbatim>\<open>logcqt_onsets\<close> filter with the kernel as
  \<open>canny\<close> returns it: multiplying the kernel by \<open>c > 0\<close> multiplies the novelty curve
  they hand to \<open>onset_detect\<close> by \<open>c\<close>.
\<close>

theorem only_envelope_onsets_normalises_its_kernel:
  assumes "0 < c"
  shows "envelope_onsets (scaled_canny c w) g x fs wait = envelope_onsets w g x fs wait \<and>
         (sum_list (map abs (canny w 100 (7 / 2) 1)) \<noteq> 0 \<longrightarrow>
            sum_list (map abs (envelope_kernel w)) = 1) \<and>
         hll_onsets (scaled_canny c w) g filename mfilt_len threshold wait =
           hll_onsets (scaled_onset_curve c w) g filename mfilt_len threshold wait \<and>
         logcqt_onsets (scaled_canny c w) g x fs pre_max post_max pre_avg post_avg delta wait
             hop_length =
           logcqt_onsets (scaled_onset_curve c w) g x fs pre_max post_max pre_avg post_avg delta
             wait hop_length"
proof -
  have n: "sum_list (map abs (envelope_kernel w)) = 1"
    if "sum_list (map abs (canny w 100 (7 / 2) 1)) \<noteq> 0"
  proof -
    let ?k = "canny w 100 (7 / 2) 1"
    let ?s = "sum_list (map abs ?k)"
    have "sum_list (map abs (envelope_kernel w)) = sum_list (map (\<lambda>c. \<bar>c / ?s\<bar>) ?k)"
      by (simp add: envelope_kernel_def Let_def comp_def)
    also have "\<dots> = ?s / \<bar>?s\<bar>" by (rule sum_list_abs_divide)
    also have "\<dots> = 1" using that sum_list_abs_nonneg [of ?k] by simp
    finally show ?thesis .
  qed
  from assms n show ?thesis
    by (simp add: envelope_onsets_scale hll_onsets_scale logcqt_onsets_scale)
qed

theorem only_envelope_onsets_normalises_its_kernel_witness:
  "envelope_onsets (scaled_canny 2 demo_collaborators) (\<lambda>i. 0) [0] 22050 100 =
     envelope_onsets demo_collaborators (\<lambda>i. 0) [0] 22050 100 \<and>
   sum_list (map abs (envelope_kernel demo_collaborators)) = 1 \<and>
   hll_onsets (scaled_canny 2 demo_collaborators) (\<lambda>i. 0) ''a.wav'' 51 (1 / 2) 100 =
     hll_onsets (scaled_onset_curve 2 demo_collaborators) (\<lambda>i. 0) ''a.wav'' 51 (1 / 2) 100"
proof -
  have c: "(0::real) < 2" by simp
  have h: "sum_list (map abs (canny demo_collaborators 100 (7 / 2) 1)) \<noteq> 0"
    by (simp add: demo_collaborators_def)
  from only_envelope_onsets_normalises_its_kernel [OF c, where w = demo_collaborators
      and g = "\<lambda>i. 0" and x = "[0]" and fs = 22050 and wait = 100 and filename = "''a.wav''"
      and mfilt_len = 51 and threshold = "1 / 2"] h
  show ?thesis by blast
qed

text \<open>
  With a \<open>canny\<close> that returns \<open>[1, -1]\<close>, the kernels \<^verbatim>\<open>hll_onsets\<close> and
  \<^verbatim>\<open>logcqt_onsets\<close> filter with have absolute values summing to 2, and dividing the
  kernel by 100 changes their onsets: the novelty drops below the threshold of the peak
  picker and no onset is left.
\<close>

lemma demo_hll_onsets:
  "hll_onsets demo_collaborators (\<lambda>i. 0) ''a.wav'' 51 (1 / 2) 100 = Inr [0, 2]"
  by (simp add: demo_collaborators_def hll_onsets_def hll_kernel_def np_mul_def np_take_def
      lfilter_def Let_def)

lemma demo_hll_onsets_small_kernel:
  "hll_onsets (scaled_canny (1 / 100) demo_collaborators) (\<lambda>i. 0) ''a.wav'' 51 (1 / 2) 100 =
     Inr []"
  by (simp add: scaled_canny_def demo_collaborators_def hll_onsets_def hll_kernel_def np_mul_def
      np_take_def lfilter_def Let_def)

lemma ln6_le: "ln (6::real) \<le> 5"
  using ln_le_minus_one [of "6::real"] by simp

lemma demo_logcqt_onsets_small_kernel:
  "logcqt_onsets (scaled_canny (1 / 100) demo_collaborators) (\<lambda>i. 1) [0] 22050 0 1 0 1 (1 / 20)
     50 1024 = []"
  using ln6_le
  by (simp add: scaled_canny_def logcqt_onsets_def logcqt_def logcqt_kernel_def
      demo_collaborators_def random_normal_def lfilter_def mean_axis0_def np_mean_def
      frames_to_time_def py_int_def Let_def)

theorem hll_and_logcqt_onsets_depend_on_kernel_gain:
  "sum_list (map abs (hll_kernel demo_collaborators)) = 2 \<and>
   hll_onsets demo_collaborators (\<lambda>i. 0) ''a.wav'' 51 (1 / 2) 100 = Inr [0, 2] \<and>
   hll_onsets (scaled_canny (1 / 100) demo_collaborators) (\<lambda>i. 0) ''a.wav'' 51 (1 / 2) 100 =
     Inr [] \<and>
   sum_list (map abs (logcqt_kernel demo_collaborators)) = 2 \<and>
   logcqt_onsets demo_collaborators (\<lambda>i. 1) [0] 22050 0 1 0 1 (1 / 20) 50 1024 = [0] \<and>
   logcqt_onsets (scaled_canny (1 / 100) demo_collaborators) (\<lambda>i. 1) [0] 22050 0 1 0 1 (1 / 20)
     50 1024 = []"
proof -
  have "sum_list (map abs (hll_kernel demo_collaborators)) = 2"
    "sum_list (map abs (logcqt_kernel demo_collaborators)) = 2"
    by (simp_all add: hll_kernel_def logcqt_kernel_def demo_collaborators_def)
  then show ?thesis
    by (simp only: demo_hll_onsets demo_hll_onsets_small_kernel logcqt_demo_noisy
        demo_logcqt_onsets_small_kernel simp_thms)
qed

text \<open>
  Claim C8. When \<open>filtfilt\<close> returns an array of the length of its input, as zero-phase
  filtering does, every result of \<^verbatim>\<open>log_envelope\<close> has the length of the waveform,
  for every smoothing length.
\<close>

theorem log_envelope_preserves_length:
  assumes "\<And>b a xs ys. filtfilt w b a xs = Inr ys \<Longrightarrow> length ys = length xs"
    and "log_envelope w x fs filt_len = Inr env"
  shows "length env = length x"
  using assms(1) [of _ _ _ env] assms(2) by (simp add: log_envelope_def Let_def)

theorem log_envelope_preserves_length_witness:
  "log_envelope demo_collaborators [1, 2, 3] 22050 100 = Inr [0, 0, 0] \<and>
   length [0, 0, 0 :: real] = length [1, 2, 3 :: real]"
proof -
  have c: "\<And>b a xs ys. filtfilt demo_collaborators b a xs = Inr ys \<Longrightarrow> length ys = length xs"
    by (auto simp: demo_collaborators_def)
  have r: "log_envelope demo_collaborators [1, 2, 3] 22050 100 = Inr [0, 0, 0]"
    by (simp add: log_envelope_def demo_collaborators_def Let_def)
  from log_envelope_preserves_length [OF c r] r show ?thesis by simp
qed

end
